theory Spec2Isabelle
  imports Complex_Main "HOL-Library.Word"
begin

section \<open>Collaborators of \<^verbatim>\<open>fcl/gjk.h\<close>\<close>

text \<open>
  The header includes \<^verbatim>\<open>geometric_shapes.h\<close>, \<^verbatim>\<open>matrix_3f.h\<close> and
  \<^verbatim>\<open>transform.h\<close> and declares \<^verbatim>\<open>getSupport\<close>, \<^verbatim>\<open>GJK::evaluate\<close> and
  \<^verbatim>\<open>EPA::evaluate\<close> without a body. Their types are type variables here
  (\<open>'v\<close> for \<^verbatim>\<open>Vec3f\<close>, \<open>'m\<close> for \<^verbatim>\<open>Matrix3f\<close>, \<open>'t\<close> for \<^verbatim>\<open>SimpleTransform\<close>,
  \<open>'s\<close> for \<^verbatim>\<open>ShapeBase\<close>) and their operations are the fields of one record that
  every definition below takes as its first argument, so that each theorem holds for
  whatever these operations compute. \<^verbatim>\<open>BVH_REAL\<close> is read as \<open>real\<close>; the header
  negates it, multiplies it by \<^verbatim>\<open>0.5\<close> and assigns literals to it, nothing more.

  Member arrays (\<^verbatim>\<open>c[4]\<close>, \<^verbatim>\<open>p[4]\<close>, \<^verbatim>\<open>f[3]\<close>, \<^verbatim>\<open>l[2]\<close>, \<^verbatim>\<open>e[3]\<close>, \<^verbatim>\<open>shapes[2]\<close>, ...)
  are functions from the index; only indices below the declared size are meaningful.
  The two arenas of EPA are lists of their declared length. Names that HOL already uses
  carry a suffix or a prefix (\<open>root_l\<close>, \<open>append_l\<close>, \<open>remove_l\<close>, \<open>epa_hull\<close>, \<open>sv_d\<close>,
  \<open>f_l\<close>, ...). A \<^verbatim>\<open>SimplexV*\<close> or
  \<^verbatim>\<open>Simplex*\<close> is only ever read through by the code of the header, and is represented by
  the object it designates; a \<^verbatim>\<open>SimplexF*\<close> is \<open>None\<close> for \<^verbatim>\<open>NULL\<close> and \<open>Some i\<close> for
  \<^verbatim>\<open>&fc_store[i]\<close>, and the faces live in an explicit store. The \<^verbatim>\<open>size_t\<close> member
  \<^verbatim>\<open>count\<close> is incremented and decremented and is a 64-bit word, so that a decrement at 0
  wraps; the other \<^verbatim>\<open>size_t\<close> values are only assigned, compared or used as indices and
  are natural numbers.
\<close>

record 'v SimplexV =
  sv_d :: 'v  \<comment> \<open>\<^verbatim>\<open>d\<close>, support direction\<close>
  sv_w :: 'v  \<comment> \<open>\<^verbatim>\<open>w\<close>, support vector\<close>

record 'v Simplex =
  sx_c :: "nat \<Rightarrow> 'v SimplexV"  \<comment> \<open>\<^verbatim>\<open>c[4]\<close>, simplex vertex\<close>
  sx_p :: "nat \<Rightarrow> real"  \<comment> \<open>\<^verbatim>\<open>p[4]\<close>, weight\<close>
  rank :: nat  \<comment> \<open>size of simplex (number of vertices)\<close>

record ('s, 'm, 't) MinkowskiDiff =
  shapes :: "nat \<Rightarrow> 's"
  toshape1 :: 'm
  toshape0 :: 't

datatype GJK_Status = GJK_Valid | GJK_Inside | GJK_Failed

record ('v, 's, 'm, 't) GJK =
  gjk_shape :: "('s, 'm, 't) MinkowskiDiff"
  ray :: 'v
  gjk_distance :: real
  simplices :: "nat \<Rightarrow> 'v Simplex"
  store_v :: "nat \<Rightarrow> 'v SimplexV"
  free_v :: "nat \<Rightarrow> 'v SimplexV"
  nfree :: nat
  current :: nat
  simplex :: "'v Simplex"
  gjk_status :: GJK_Status

type_synonym size_t = "64 word"
type_synonym face_ptr = "nat option"

record 'v SimplexF =
  f_n :: 'v
  f_d :: real
  f_c :: "nat \<Rightarrow> 'v SimplexV"  \<comment> \<open>a face has three vertices\<close>
  f_f :: "nat \<Rightarrow> face_ptr"  \<comment> \<open>a face has three adjacent faces\<close>
  f_l :: "nat \<Rightarrow> face_ptr"  \<comment> \<open>the pre and post faces in the list\<close>
  f_e :: "nat \<Rightarrow> nat"
  pass :: nat

record SimplexList =
  root_l :: face_ptr
  count :: size_t

datatype EPA_Status =
  EPA_Valid | EPA_Touching | EPA_Degenerated | EPA_NonConvex | EPA_InvalidHull
  | EPA_OutOfFaces | EPA_OutOfVertices | EPA_AccuracyReached | EPA_FallBack | EPA_Failed

record 'v EPA =
  epa_status :: EPA_Status
  result :: "'v Simplex"
  normal :: 'v
  depth :: real
  sv_store :: "'v SimplexV list"
  fc_store :: "'v SimplexF list"
  nextsv :: nat
  epa_hull :: SimplexList  \<comment> \<open>\<^verbatim>\<open>hull\<close>\<close>
  epa_stock :: SimplexList  \<comment> \<open>\<^verbatim>\<open>stock\<close>\<close>

record ('v, 's, 'm, 't) fcl =
  Vec3f0 :: 'v  \<comment> \<open>\<^verbatim>\<open>Vec3f()\<close>\<close>
  Vec3f :: "real \<Rightarrow> real \<Rightarrow> real \<Rightarrow> 'v"  \<comment> \<open>\<^verbatim>\<open>Vec3f(x, y, z)\<close>\<close>
  vplus :: "'v \<Rightarrow> 'v \<Rightarrow> 'v"  \<comment> \<open>\<^verbatim>\<open>a + b\<close>, \<^verbatim>\<open>a += b\<close>\<close>
  vminus :: "'v \<Rightarrow> 'v \<Rightarrow> 'v"  \<comment> \<open>\<^verbatim>\<open>a - b\<close>\<close>
  vneg :: "'v \<Rightarrow> 'v"  \<comment> \<open>\<^verbatim>\<open>-a\<close>\<close>
  vtimes :: "'v \<Rightarrow> real \<Rightarrow> 'v"  \<comment> \<open>\<^verbatim>\<open>a * t\<close>\<close>
  vlength :: "'v \<Rightarrow> real"  \<comment> \<open>\<^verbatim>\<open>a.length()\<close>\<close>
  mtimes :: "'m \<Rightarrow> 'v \<Rightarrow> 'v"  \<comment> \<open>\<^verbatim>\<open>m * a\<close>\<close>
  transposeTimes :: "'m \<Rightarrow> 'm \<Rightarrow> 'm"
  getRotation :: "'t \<Rightarrow> 'm"
  inverseTimes :: "'t \<Rightarrow> 't \<Rightarrow> 't"
  transform :: "'t \<Rightarrow> 'v \<Rightarrow> 'v"
  getSupport :: "'s \<Rightarrow> 'v \<Rightarrow> 'v"
  GJK_evaluate :: "('v, 's, 'm, 't) GJK \<Rightarrow> ('s, 'm, 't) MinkowskiDiff \<Rightarrow> 'v
    \<Rightarrow> ('v, 's, 'm, 't) GJK \<times> GJK_Status"
  EPA_evaluate :: "'v EPA \<Rightarrow> ('v, 's, 'm, 't) GJK \<Rightarrow> 'v
    \<Rightarrow> ('v EPA \<times> ('v, 's, 'm, 't) GJK) \<times> EPA_Status"

section \<open>The Minkowski difference\<close>

definition support0 :: "('v, 's, 'm, 't) fcl \<Rightarrow> ('s, 'm, 't) MinkowskiDiff \<Rightarrow> 'v \<Rightarrow> 'v" where
  "support0 E M dir = getSupport E (shapes M 0) dir"

definition support1 :: "('v, 's, 'm, 't) fcl \<Rightarrow> ('s, 'm, 't) MinkowskiDiff \<Rightarrow> 'v \<Rightarrow> 'v" where
  "support1 E M dir =
     transform E (toshape0 M) (getSupport E (shapes M 1) (mtimes E (toshape1 M) dir))"

definition support :: "('v, 's, 'm, 't) fcl \<Rightarrow> ('s, 'm, 't) MinkowskiDiff \<Rightarrow> 'v \<Rightarrow> 'v" where
  "support E M dir = vminus E (support0 E M dir) (support1 E M (vneg E dir))"

definition support_of :: "('v, 's, 'm, 't) fcl \<Rightarrow> ('s, 'm, 't) MinkowskiDiff \<Rightarrow> 'v \<Rightarrow> nat \<Rightarrow> 'v" where
  "support_of E M dir index = (if index \<noteq> 0 then support1 E M dir else support0 E M dir)"

section \<open>Budgets\<close>

definition GJK_EPS :: real where "GJK_EPS = 0.000001"
definition GJK_MAX_ITERATIONS :: nat where "GJK_MAX_ITERATIONS = 128"
definition EPA_MAX_FACES :: nat where "EPA_MAX_FACES = 128"
definition EPA_MAX_VERTICES :: nat where "EPA_MAX_VERTICES = 64"
definition EPA_EPS :: real where "EPA_EPS = 0.000001"
definition EPA_MAX_ITERATIONS :: nat where "EPA_MAX_ITERATIONS = 255"

section \<open>The GJK engine\<close>

text \<open>
  \<^verbatim>\<open>GJK gjk;\<close> runs \<^verbatim>\<open>initialize\<close> on an object whose other members hold whatever
  their storage held: the argument \<open>mem\<close> of \<open>GJK_new\<close>.
\<close>

definition GJK_initialize :: "('v, 's, 'm, 't) fcl \<Rightarrow> ('v, 's, 'm, 't) GJK \<Rightarrow> ('v, 's, 'm, 't) GJK" where
  "GJK_initialize E g =
     g\<lparr>ray := Vec3f0 E, nfree := 0, gjk_status := GJK_Failed, current := 0, gjk_distance := 0\<rparr>"

definition GJK_new :: "('v, 's, 'm, 't) fcl \<Rightarrow> ('v, 's, 'm, 't) GJK \<Rightarrow> ('v, 's, 'm, 't) GJK" where
  "GJK_new E mem = GJK_initialize E mem"

definition getSimplex :: "('v, 's, 'm, 't) GJK \<Rightarrow> 'v Simplex" where
  "getSimplex g = simplex g"

section \<open>The EPA engine\<close>

subsection \<open>Writes through a face pointer\<close>

definition set_l :: "'v SimplexF list \<Rightarrow> nat \<Rightarrow> nat \<Rightarrow> face_ptr \<Rightarrow> 'v SimplexF list" where
  \<comment> \<open>\<^verbatim>\<open>a->l[k] = v\<close>\<close>
  "set_l fs a k v = fs[a := (fs ! a)\<lparr>f_l := (f_l (fs ! a))(k := v)\<rparr>]"

definition set_e :: "'v SimplexF list \<Rightarrow> nat \<Rightarrow> nat \<Rightarrow> nat \<Rightarrow> 'v SimplexF list" where
  \<comment> \<open>\<^verbatim>\<open>a->e[k] = v\<close>\<close>
  "set_e fs a k v = fs[a := (fs ! a)\<lparr>f_e := (f_e (fs ! a))(k := v)\<rparr>]"

definition set_f :: "'v SimplexF list \<Rightarrow> nat \<Rightarrow> nat \<Rightarrow> face_ptr \<Rightarrow> 'v SimplexF list" where
  \<comment> \<open>\<^verbatim>\<open>a->f[k] = v\<close>\<close>
  "set_f fs a k v = fs[a := (fs ! a)\<lparr>f_f := (f_f (fs ! a))(k := v)\<rparr>]"

subsection \<open>\<^verbatim>\<open>SimplexList\<close>\<close>

definition SimplexList_new :: SimplexList where
  "SimplexList_new = \<lparr>root_l = None, count = 0\<rparr>"

definition append_l :: "SimplexList \<times> 'v SimplexF list \<Rightarrow> nat \<Rightarrow> SimplexList \<times> 'v SimplexF list" where
  "append_l s face =
     (let (lst, fs) = s;
          fs = set_l fs face 0 None;
          fs = set_l fs face 1 (root_l lst);
          fs = (case root_l lst of Some r \<Rightarrow> set_l fs r 0 (Some face) | None \<Rightarrow> fs);
          lst = lst\<lparr>root_l := Some face\<rparr>
      in (lst\<lparr>count := count lst + 1\<rparr>, fs))"

definition remove_l :: "SimplexList \<times> 'v SimplexF list \<Rightarrow> nat \<Rightarrow> SimplexList \<times> 'v SimplexF list" where
  "remove_l s face =
     (let (lst, fs) = s;
          fs = (case f_l (fs ! face) 1 of Some nx \<Rightarrow> set_l fs nx 0 (f_l (fs ! face) 0) | None \<Rightarrow> fs);
          fs = (case f_l (fs ! face) 0 of Some pv \<Rightarrow> set_l fs pv 1 (f_l (fs ! face) 1) | None \<Rightarrow> fs);
          lst = (if Some face = root_l lst then lst\<lparr>root_l := f_l (fs ! face) 1\<rparr> else lst)
      in (lst\<lparr>count := count lst - 1\<rparr>, fs))"

subsection \<open>\<^verbatim>\<open>bind\<close>\<close>

definition bind :: "'v SimplexF list \<Rightarrow> nat \<Rightarrow> nat \<Rightarrow> nat \<Rightarrow> nat \<Rightarrow> 'v SimplexF list" where
  "bind fs fa ea fb eb =
     (let fs = set_e fs fa ea eb;
          fs = set_f fs fa ea (Some fb);
          fs = set_e fs fb eb ea;
          fs = set_f fs fb eb (Some fa)
      in fs)"

subsection \<open>Construction\<close>

function initialize_loop :: "nat \<Rightarrow> SimplexList \<times> 'v SimplexF list \<Rightarrow> SimplexList \<times> 'v SimplexF list" where
  "initialize_loop i s =
     (if i < EPA_MAX_FACES then initialize_loop (i + 1) (append_l s (EPA_MAX_FACES - i - 1)) else s)"
  by pat_completeness auto
termination
  by (relation "measure (\<lambda>(i, s). EPA_MAX_FACES - i)") auto

definition EPA_initialize :: "('v, 's, 'm, 't) fcl \<Rightarrow> 'v EPA \<Rightarrow> 'v EPA" where
  "EPA_initialize E e =
     (let e = e\<lparr>epa_status := EPA_Failed\<rparr>;
          e = e\<lparr>normal := Vec3f E 0 0 0\<rparr>;
          e = e\<lparr>depth := 0\<rparr>;
          e = e\<lparr>nextsv := 0\<rparr>;
          (st, fs) = initialize_loop 0 (epa_stock e, fc_store e)
      in e\<lparr>epa_stock := st, fc_store := fs\<rparr>)"

text \<open>
  \<^verbatim>\<open>EPA epa;\<close> constructs the two lists empty, leaves every other member as its storage
  held it (\<open>mem\<close>, with \<open>vertex_mem i\<close> and \<open>face_mem i\<close> the contents of slot \<open>i\<close> of
  the two arenas), and runs \<^verbatim>\<open>initialize\<close>.
\<close>

definition EPA_new :: "('v, 's, 'm, 't) fcl \<Rightarrow> 'v EPA \<Rightarrow> (nat \<Rightarrow> 'v SimplexV) \<Rightarrow> (nat \<Rightarrow> 'v SimplexF) \<Rightarrow> 'v EPA" where
  "EPA_new E mem vertex_mem face_mem =
     EPA_initialize E
       (mem\<lparr>sv_store := map vertex_mem [0..<EPA_MAX_VERTICES],
            fc_store := map face_mem [0..<EPA_MAX_FACES],
            epa_hull := SimplexList_new, epa_stock := SimplexList_new\<rparr>)"

section \<open>The queries\<close>

text \<open>
  \<^verbatim>\<open>shapeDistance2\<close> stores through \<^verbatim>\<open>distance\<close> on both paths, without testing the
  pointer; the model returns the return value and the value stored. The three output pointers of
  \<^verbatim>\<open>shapeIntersect2\<close> may be \<^verbatim>\<open>NULL\<close>: an argument is \<open>None\<close> for \<^verbatim>\<open>NULL\<close> and
  \<open>Some x\<close> for a pointer to a cell that holds \<open>x\<close>, and the model returns the return
  value and the three cells after the call. The arguments \<open>gmem\<close>, \<open>emem\<close>, \<open>vmem\<close>
  and \<open>fmem\<close> are the storage in which the two engines are constructed.
\<close>

definition MinkowskiDiff_of ::
  "('v, 's, 'm, 't) fcl \<Rightarrow> 's \<Rightarrow> 't \<Rightarrow> 's \<Rightarrow> 't \<Rightarrow> ('s, 'm, 't) MinkowskiDiff" where
  \<comment> \<open>the four assignments to \<^verbatim>\<open>shape\<close> that open both queries\<close>
  "MinkowskiDiff_of E s1 tf1 s2 tf2 =
     \<lparr>shapes = (\<lambda>k. if k = 0 then s1 else s2),
      toshape1 = transposeTimes E (getRotation E tf2) (getRotation E tf1),
      toshape0 = inverseTimes E tf1 tf2\<rparr>"

function shapeDistance2_loop ::
  "('v, 's, 'm, 't) fcl \<Rightarrow> ('s, 'm, 't) MinkowskiDiff \<Rightarrow> 'v Simplex \<Rightarrow> nat \<Rightarrow> 'v \<times> 'v \<Rightarrow> 'v \<times> 'v" where
  "shapeDistance2_loop E shape sx i ws =
     (if i < rank sx then
        (let (w0, w1) = ws;
             p = sx_p sx i;
             w0 = vplus E w0 (vtimes E (support_of E shape (sv_d (sx_c sx i)) 0) p);
             w1 = vplus E w1 (vtimes E (support_of E shape (vneg E (sv_d (sx_c sx i))) 1) p)
         in shapeDistance2_loop E shape sx (i + 1) (w0, w1))
      else ws)"
  by pat_completeness auto
termination
  by (relation "measure (\<lambda>(E, shape, sx, i, ws). rank sx - i)") auto

definition shapeDistance2 ::
  "('v, 's, 'm, 't) fcl \<Rightarrow> ('v, 's, 'm, 't) GJK \<Rightarrow> 's \<Rightarrow> 't \<Rightarrow> 's \<Rightarrow> 't \<Rightarrow> bool \<times> real" where
  "shapeDistance2 E gmem s1 tf1 s2 tf2 =
     (let guess = Vec3f E 1 0 0;
          shape = MinkowskiDiff_of E s1 tf1 s2 tf2;
          gjk = GJK_new E gmem;
          (gjk, gjk_status) = GJK_evaluate E gjk shape (vneg E guess)
      in if gjk_status = GJK_Valid then
           (let (w0, w1) = shapeDistance2_loop E shape (getSimplex gjk) 0 (Vec3f0 E, Vec3f0 E)
            in (True, vlength E (vminus E w0 w1)))
         else (False, - 1))"

function shapeIntersect2_loop ::
  "('v, 's, 'm, 't) fcl \<Rightarrow> ('s, 'm, 't) MinkowskiDiff \<Rightarrow> 'v Simplex \<Rightarrow> nat \<Rightarrow> 'v \<Rightarrow> 'v" where
  "shapeIntersect2_loop E shape sx i w0 =
     (if i < rank sx then
        shapeIntersect2_loop E shape sx (i + 1)
          (vplus E w0 (vtimes E (support_of E shape (sv_d (sx_c sx i)) 0) (sx_p sx i)))
      else w0)"
  by pat_completeness auto
termination
  by (relation "measure (\<lambda>(E, shape, sx, i, w0). rank sx - i)") auto

definition store :: "'a option \<Rightarrow> 'a \<Rightarrow> 'a option" where
  \<comment> \<open>\<^verbatim>\<open>if(ptr) *ptr = x;\<close>\<close>
  "store ptr x = (case ptr of Some old \<Rightarrow> Some x | None \<Rightarrow> None)"

definition shapeIntersect2 ::
  "('v, 's, 'm, 't) fcl \<Rightarrow> ('v, 's, 'm, 't) GJK \<Rightarrow> 'v EPA \<Rightarrow> (nat \<Rightarrow> 'v SimplexV) \<Rightarrow> (nat \<Rightarrow> 'v SimplexF)
    \<Rightarrow> 's \<Rightarrow> 't \<Rightarrow> 's \<Rightarrow> 't \<Rightarrow> 'v option \<Rightarrow> real option \<Rightarrow> 'v option
    \<Rightarrow> bool \<times> 'v option \<times> real option \<times> 'v option" where
  "shapeIntersect2 E gmem emem vmem fmem s1 tf1 s2 tf2 contact_points penetration_depth normal_p =
     (let guess = Vec3f E 1 0 0;
          shape = MinkowskiDiff_of E s1 tf1 s2 tf2;
          gjk = GJK_new E gmem;
          (gjk, gjk_status) = GJK_evaluate E gjk shape (vneg E guess)
      in case gjk_status of
           GJK_Inside \<Rightarrow>
             (let epa = EPA_new E emem vmem fmem;
                  ((epa, gjk), epa_status) = EPA_evaluate E epa gjk (vneg E guess)
              in if epa_status \<noteq> EPA_Failed then
                   (let w0 = shapeIntersect2_loop E shape (result epa) 0 (Vec3f0 E);
                        penetration_depth = store penetration_depth (- depth epa);
                        normal_p = store normal_p (vneg E (normal epa));
                        contact_points = store contact_points
                          (transform E tf1 (vminus E w0 (vtimes E (normal epa) (depth epa * 0.5))))
                    in (True, contact_points, penetration_depth, normal_p))
                 else (False, contact_points, penetration_depth, normal_p))
         | _ \<Rightarrow> (False, contact_points, penetration_depth, normal_p))"

section \<open>Notions used to state the properties\<close>

text \<open>
  The engine runs that open the queries: \<open>run_GJK\<close> is the state and the status in which
  GJK terminates, \<open>run_EPA\<close> the states and the status in which EPA terminates when it
  is started on that GJK state.
\<close>

definition run_GJK ::
  "('v, 's, 'm, 't) fcl \<Rightarrow> ('v, 's, 'm, 't) GJK \<Rightarrow> 's \<Rightarrow> 't \<Rightarrow> 's \<Rightarrow> 't
    \<Rightarrow> ('v, 's, 'm, 't) GJK \<times> GJK_Status" where
  "run_GJK E gmem s1 tf1 s2 tf2 =
     GJK_evaluate E (GJK_new E gmem) (MinkowskiDiff_of E s1 tf1 s2 tf2) (vneg E (Vec3f E 1 0 0))"

definition run_EPA ::
  "('v, 's, 'm, 't) fcl \<Rightarrow> ('v, 's, 'm, 't) GJK \<Rightarrow> 'v EPA \<Rightarrow> (nat \<Rightarrow> 'v SimplexV) \<Rightarrow> (nat \<Rightarrow> 'v SimplexF)
    \<Rightarrow> 's \<Rightarrow> 't \<Rightarrow> 's \<Rightarrow> 't \<Rightarrow> ('v EPA \<times> ('v, 's, 'm, 't) GJK) \<times> EPA_Status" where
  "run_EPA E gmem emem vmem fmem s1 tf1 s2 tf2 =
     EPA_evaluate E (EPA_new E emem vmem fmem) (fst (run_GJK E gmem s1 tf1 s2 tf2))
       (vneg E (Vec3f E 1 0 0))"

text \<open>
  The weighted sum of the support points of the first \<open>rank\<close> vertices of a simplex:
  vertex \<open>i\<close> contributes the support point of shape \<open>index\<close> in direction \<open>dir i\<close>,
  scaled by the weight \<open>p[i]\<close>; the terms are added in the order of the indices.
\<close>

definition weighted_support ::
  "('v, 's, 'm, 't) fcl \<Rightarrow> ('s, 'm, 't) MinkowskiDiff \<Rightarrow> 'v Simplex \<Rightarrow> (nat \<Rightarrow> 'v) \<Rightarrow> nat \<Rightarrow> 'v" where
  "weighted_support E shape sx dir index =
     foldl (\<lambda>acc i. vplus E acc (vtimes E (support_of E shape (dir i) index) (sx_p sx i)))
       (Vec3f0 E) [0..<rank sx]"

text \<open>
  \<open>dll fs prev cur xs\<close>: following the \<^verbatim>\<open>l[1]\<close> links from \<open>cur\<close> visits exactly the
  faces \<open>xs\<close> and ends at \<^verbatim>\<open>NULL\<close>, and the \<^verbatim>\<open>l[0]\<close> link of each visited face is
  the face before it (\<open>prev\<close> for the first). \<open>is_list fs lst xs\<close>: the list \<open>lst\<close> holds
  the faces \<open>xs\<close>, each once, first to last, and counts them.
\<close>

primrec dll :: "'v SimplexF list \<Rightarrow> face_ptr \<Rightarrow> face_ptr \<Rightarrow> nat list \<Rightarrow> bool" where
  "dll fs prev cur [] = (cur = None)"
| "dll fs prev cur (x # xs) =
     (cur = Some x \<and> x < length fs \<and> f_l (fs ! x) 0 = prev \<and> dll fs (Some x) (f_l (fs ! x) 1) xs)"

definition is_list :: "'v SimplexF list \<Rightarrow> SimplexList \<Rightarrow> nat list \<Rightarrow> bool" where
  "is_list fs lst xs = (dll fs None (root_l lst) xs \<and> distinct xs \<and> count lst = of_nat (length xs))"

text \<open>
  The two link writes of \<^verbatim>\<open>remove\<close>, with the links of the removed face read before
  either write.
\<close>

definition unlink :: "'v SimplexF list \<Rightarrow> nat \<Rightarrow> 'v SimplexF list" where
  "unlink fs f =
     (let fs1 = (case f_l (fs ! f) 1 of Some nx \<Rightarrow> set_l fs nx 0 (f_l (fs ! f) 0) | None \<Rightarrow> fs)
      in case f_l (fs ! f) 0 of Some pv \<Rightarrow> set_l fs1 pv 1 (f_l (fs ! f) 1) | None \<Rightarrow> fs1)"







section \<open>A stand-in for the collaborators\<close>

text \<open>
  Concrete collaborators on which the definitions can be evaluated: vectors are triples,
  a transform is a translation, a shape is a single point (its own support point in every
  direction), GJK stops at once with a prescribed status on a one-vertex simplex, and
  EPA stops at once with a prescribed status, normal \<open>(1, 0, 0)\<close> and depth \<open>2\<close>.
\<close>

type_synonym vec = "real \<times> real \<times> real"

definition stub_vertex :: "vec \<Rightarrow> vec SimplexV" where
  "stub_vertex dir = \<lparr>sv_d = dir, sv_w = dir\<rparr>"

definition stub_simplex :: "vec \<Rightarrow> vec Simplex" where
  "stub_simplex dir =
     \<lparr>sx_c = (\<lambda>i. stub_vertex dir), sx_p = (\<lambda>i. if i = 0 then 1 else 0), rank = 1\<rparr>"

definition stub_fcl :: "GJK_Status \<Rightarrow> EPA_Status \<Rightarrow> (vec, vec, unit, vec) fcl" where
  "stub_fcl gst est =
     \<lparr>Vec3f0 = (0, 0, 0),
      Vec3f = (\<lambda>x y z. (x, y, z)),
      vplus = (\<lambda>(a, b, c) (x, y, z). (a + x, b + y, c + z)),
      vminus = (\<lambda>(a, b, c) (x, y, z). (a - x, b - y, c - z)),
      vneg = (\<lambda>(a, b, c). (- a, - b, - c)),
      vtimes = (\<lambda>(a, b, c) t. (a * t, b * t, c * t)),
      vlength = (\<lambda>(a, b, c). sqrt (a * a + b * b + c * c)),
      mtimes = (\<lambda>m v. v),
      transposeTimes = (\<lambda>a b. ()),
      getRotation = (\<lambda>t. ()),
      inverseTimes = (\<lambda>(a, b, c) (x, y, z). (x - a, y - b, z - c)),
      transform = (\<lambda>(a, b, c) (x, y, z). (x + a, y + b, z + c)),
      getSupport = (\<lambda>s dir. s),
      GJK_evaluate = (\<lambda>g shape guess. (g\<lparr>simplex := stub_simplex guess, gjk_status := gst\<rparr>, gst)),
      EPA_evaluate = (\<lambda>e g guess.
        ((e\<lparr>epa_status := est, result := getSimplex g, normal := (1, 0, 0), depth := 2\<rparr>, g), est))\<rparr>"

definition stub_face :: "vec SimplexF" where
  "stub_face =
     \<lparr>f_n = (0, 0, 0), f_d = 0, f_c = (\<lambda>k. stub_vertex (0, 0, 0)),
      f_f = (\<lambda>k. None), f_l = (\<lambda>k. None), f_e = (\<lambda>k. 0), pass = 0\<rparr>"

definition stub_vmem :: "nat \<Rightarrow> vec SimplexV" where
  "stub_vmem i = stub_vertex (7, 7, 7)"

definition stub_fmem :: "nat \<Rightarrow> vec SimplexF" where
  "stub_fmem i = stub_face"

definition stub_gjk_mem :: "(vec, vec, unit, vec) GJK" where
  "stub_gjk_mem =
     \<lparr>gjk_shape = \<lparr>shapes = (\<lambda>k. (0, 0, 0)), toshape1 = (), toshape0 = (0, 0, 0)\<rparr>,
      ray = (7, 7, 7), gjk_distance = 7, simplices = (\<lambda>k. stub_simplex (7, 7, 7)),
      store_v = (\<lambda>k. stub_vertex (7, 7, 7)), free_v = (\<lambda>k. stub_vertex (7, 7, 7)),
      nfree = 7, current = 7, simplex = stub_simplex (7, 7, 7), gjk_status = GJK_Valid\<rparr>"

definition stub_epa_mem :: "vec EPA" where
  "stub_epa_mem =
     \<lparr>epa_status = EPA_Valid, result = stub_simplex (7, 7, 7), normal = (7, 7, 7), depth = 7,
      sv_store = [], fc_store = [], nextsv = 7,
      epa_hull = \<lparr>root_l = Some 7, count = 7\<rparr>, epa_stock = \<lparr>root_l = Some 7, count = 7\<rparr>\<rparr>"







section \<open>The Minkowski difference: properties\<close>

text \<open>
  C3. For every direction, \<^verbatim>\<open>MinkowskiDiff::support(d)\<close> is \<^verbatim>\<open>support0(d) - support1(-d)\<close>,
  where \<^verbatim>\<open>support0(d)\<close> is the support point of shape 0 along \<^verbatim>\<open>d\<close> in its own frame and
  \<^verbatim>\<open>support1(d)\<close> is the support point of shape 1 along \<^verbatim>\<open>toshape1 * d\<close>, mapped by the
  transform \<^verbatim>\<open>toshape0\<close>.
\<close>

theorem support_minkowski:
  "support E M dir = vminus E (support0 E M dir) (support1 E M (vneg E dir))
   \<and> support0 E M dir = getSupport E (shapes M 0) dir
   \<and> support1 E M dir = transform E (toshape0 M) (getSupport E (shapes M 1) (mtimes E (toshape1 M) dir))
   \<and> support E M dir =
       vminus E (getSupport E (shapes M 0) dir)
         (transform E (toshape0 M) (getSupport E (shapes M 1) (mtimes E (toshape1 M) (vneg E dir))))"
  by (simp add: support_def support0_def support1_def)

section \<open>The queries: properties\<close>

declare shapeDistance2_loop.simps [simp del] shapeIntersect2_loop.simps [simp del]

text \<open>Both loops add the weighted support points of the vertices below \<open>rank\<close>, in order.\<close>

lemma shapeIntersect2_loop_foldl:
  "shapeIntersect2_loop E shape sx i w0 =
     foldl (\<lambda>acc i. vplus E acc (vtimes E (support_of E shape (sv_d (sx_c sx i)) 0) (sx_p sx i)))
       w0 [i..<rank sx]"
proof (induction E shape sx i w0 rule: shapeIntersect2_loop.induct)
  case (1 E shape sx i w0)
  show ?case
  proof (cases "i < rank sx")
    case True
    then show ?thesis
      using "1.IH" by (subst shapeIntersect2_loop.simps) (simp add: upt_conv_Cons)
  next
    case False
    then show ?thesis by (subst shapeIntersect2_loop.simps) simp
  qed
qed

lemma shapeDistance2_loop_foldl:
  "shapeDistance2_loop E shape sx i (w0, w1) =
     (foldl (\<lambda>acc i. vplus E acc (vtimes E (support_of E shape (sv_d (sx_c sx i)) 0) (sx_p sx i)))
        w0 [i..<rank sx],
      foldl (\<lambda>acc i. vplus E acc (vtimes E (support_of E shape (vneg E (sv_d (sx_c sx i))) 1) (sx_p sx i)))
        w1 [i..<rank sx])"
proof (induction E shape sx i "(w0, w1)" arbitrary: w0 w1 rule: shapeDistance2_loop.induct)
  case (1 E shape sx i)
  show ?case
  proof (cases "i < rank sx")
    case True
    then show ?thesis
      using "1.hyps" by (subst shapeDistance2_loop.simps) (simp add: upt_conv_Cons Let_def)
  next
    case False
    then show ?thesis by (subst shapeDistance2_loop.simps) simp
  qed
qed

lemma shapeDistance2_eq:
  "shapeDistance2 E gmem s1 tf1 s2 tf2 =
     (let shape = MinkowskiDiff_of E s1 tf1 s2 tf2;
          r = run_GJK E gmem s1 tf1 s2 tf2;
          sx = getSimplex (fst r)
      in if snd r = GJK_Valid then
           (True, vlength E (vminus E
              (weighted_support E shape sx (\<lambda>i. sv_d (sx_c sx i)) 0)
              (weighted_support E shape sx (\<lambda>i. vneg E (sv_d (sx_c sx i))) 1)))
         else (False, - 1))"
  by (simp add: shapeDistance2_def run_GJK_def Let_def split_beta shapeDistance2_loop_foldl
      weighted_support_def)

lemma shapeIntersect2_eq:
  "shapeIntersect2 E gmem emem vmem fmem s1 tf1 s2 tf2 cp pd np =
     (let shape = MinkowskiDiff_of E s1 tf1 s2 tf2;
          r = run_EPA E gmem emem vmem fmem s1 tf1 s2 tf2;
          epa = fst (fst r);
          w0 = weighted_support E shape (result epa) (\<lambda>i. sv_d (sx_c (result epa) i)) 0
      in if snd (run_GJK E gmem s1 tf1 s2 tf2) = GJK_Inside \<and> snd r \<noteq> EPA_Failed then
           (True,
            store cp (transform E tf1 (vminus E w0 (vtimes E (normal epa) (depth epa * 0.5)))),
            store pd (- depth epa),
            store np (vneg E (normal epa)))
         else (False, cp, pd, np))"
  by (cases "snd (run_GJK E gmem s1 tf1 s2 tf2)")
     (simp_all add: shapeIntersect2_def run_GJK_def run_EPA_def Let_def split_beta
      shapeIntersect2_loop_foldl weighted_support_def)

lemma store_map_option: "store p x = map_option (\<lambda>old. x) p"
  by (cases p) (simp_all add: store_def)


lemma stub_fcl_ops:
  "Vec3f0 (stub_fcl gst est) = (0, 0, 0)"
  "Vec3f (stub_fcl gst est) = (\<lambda>x y z. (x, y, z))"
  "vplus (stub_fcl gst est) = (\<lambda>(a, b, c) (x, y, z). (a + x, b + y, c + z))"
  "vminus (stub_fcl gst est) = (\<lambda>(a, b, c) (x, y, z). (a - x, b - y, c - z))"
  "vneg (stub_fcl gst est) = (\<lambda>(a, b, c). (- a, - b, - c))"
  "vtimes (stub_fcl gst est) = (\<lambda>(a, b, c) t. (a * t, b * t, c * t))"
  "vlength (stub_fcl gst est) = (\<lambda>(a, b, c). sqrt (a * a + b * b + c * c))"
  "mtimes (stub_fcl gst est) = (\<lambda>m v. v)"
  "inverseTimes (stub_fcl gst est) = (\<lambda>(a, b, c) (x, y, z). (x - a, y - b, z - c))"
  "transform (stub_fcl gst est) = (\<lambda>(a, b, c) (x, y, z). (x + a, y + b, z + c))"
  "getSupport (stub_fcl gst est) = (\<lambda>s dir. s)"
  by (simp_all add: stub_fcl_def)

lemma run_GJK_stub: "snd (run_GJK (stub_fcl gst est) gmem s1 tf1 s2 tf2) = gst"
  by (simp add: run_GJK_def stub_fcl_def)

lemma run_EPA_stub: "snd (run_EPA (stub_fcl gst est) gmem emem vmem fmem s1 tf1 s2 tf2) = est"
  by (simp add: run_EPA_def stub_fcl_def)

lemma getSimplex_stub:
  "getSimplex (fst (run_GJK (stub_fcl gst est) gmem s1 tf1 s2 tf2)) = stub_simplex (- 1, 0, 0)"
  by (simp add: run_GJK_def stub_fcl_def getSimplex_def)

lemma EPA_stub:
  "result (fst (fst (run_EPA (stub_fcl gst est) gmem emem vmem fmem s1 tf1 s2 tf2))) = stub_simplex (- 1, 0, 0)
   \<and> normal (fst (fst (run_EPA (stub_fcl gst est) gmem emem vmem fmem s1 tf1 s2 tf2))) = (1, 0, 0)
   \<and> depth (fst (fst (run_EPA (stub_fcl gst est) gmem emem vmem fmem s1 tf1 s2 tf2))) = 2"
  by (simp add: run_EPA_def run_GJK_def stub_fcl_def getSimplex_def)

lemma weighted_support_stub:
  "weighted_support (stub_fcl gst est) (MinkowskiDiff_of (stub_fcl gst est) s1 tf1 s2 tf2)
     (stub_simplex v) dir 0 = (case s1 of (a, b, c) \<Rightarrow> (a, b, c))"
  by (simp add: weighted_support_def stub_simplex_def support_of_def support0_def
      MinkowskiDiff_of_def stub_fcl_ops split: prod.split)

text \<open>
  An evaluation: two points at distance 3, GJK ending \<^verbatim>\<open>Valid\<close> on the seed vertex.
\<close>

lemma shapeDistance2_example:
  "shapeDistance2 (stub_fcl GJK_Valid EPA_Failed) stub_gjk_mem (0, 0, 0) (0, 0, 0) (3, 0, 0) (0, 0, 0)
     = (True, 3)"
proof -
  have "sqrt 9 = 3"
    using real_sqrt_abs [of 3] by simp
  then show ?thesis
    by (simp add: shapeDistance2_eq Let_def run_GJK_stub getSimplex_stub weighted_support_def
        stub_simplex_def stub_vertex_def support_of_def support0_def support1_def
        MinkowskiDiff_of_def stub_fcl_ops)
qed

text \<open>
  C2. \<^verbatim>\<open>shapeDistance2\<close> returns true with \<^verbatim>\<open>*distance\<close> the length of \<open>w0 - w1\<close>, where
  \<open>w0\<close> and \<open>w1\<close> are the sums over the vertices of the terminal simplex of
  \<^verbatim>\<open>support(d_i, 0) * p_i\<close> and of \<^verbatim>\<open>support(-d_i, 1) * p_i\<close>, if and only if GJK terminates
  \<^verbatim>\<open>Valid\<close>; it returns false exactly when GJK terminates \<^verbatim>\<open>Inside\<close> or \<^verbatim>\<open>Failed\<close>.
\<close>

theorem shapeDistance2_valid_iff:
  "(let r = shapeDistance2 E gmem s1 tf1 s2 tf2;
        shape = MinkowskiDiff_of E s1 tf1 s2 tf2;
        gjk = fst (run_GJK E gmem s1 tf1 s2 tf2);
        gjk_status = snd (run_GJK E gmem s1 tf1 s2 tf2);
        sx = getSimplex gjk;
        w0 = weighted_support E shape sx (\<lambda>i. sv_d (sx_c sx i)) 0;
        w1 = weighted_support E shape sx (\<lambda>i. vneg E (sv_d (sx_c sx i))) 1
    in (fst r \<and> snd r = vlength E (vminus E w0 w1)) = (gjk_status = GJK_Valid)
       \<and> (\<not> fst r) = (gjk_status = GJK_Inside \<or> gjk_status = GJK_Failed))"
  by (cases "snd (run_GJK E gmem s1 tf1 s2 tf2)") (simp_all add: shapeDistance2_eq Let_def)

text \<open>
  C8. Whenever \<^verbatim>\<open>shapeDistance2\<close> returns false, which is when GJK ended \<^verbatim>\<open>Inside\<close> or
  \<^verbatim>\<open>Failed\<close>, it has stored \<open>-1\<close> through \<^verbatim>\<open>distance\<close>.
\<close>

theorem shapeDistance2_false:
  assumes "\<not> fst (shapeDistance2 E gmem s1 tf1 s2 tf2)"
  shows "snd (shapeDistance2 E gmem s1 tf1 s2 tf2) = - 1
    \<and> (snd (run_GJK E gmem s1 tf1 s2 tf2) = GJK_Inside \<or> snd (run_GJK E gmem s1 tf1 s2 tf2) = GJK_Failed)"
  using assms
  by (cases "snd (run_GJK E gmem s1 tf1 s2 tf2)") (simp_all add: shapeDistance2_eq Let_def)

theorem shapeDistance2_false_witness:
  "\<not> fst (shapeDistance2 (stub_fcl GJK_Failed EPA_Failed) stub_gjk_mem (0, 0, 0) (0, 0, 0) (3, 0, 0) (0, 0, 0))
   \<and> snd (shapeDistance2 (stub_fcl GJK_Failed EPA_Failed) stub_gjk_mem (0, 0, 0) (0, 0, 0) (3, 0, 0) (0, 0, 0)) = - 1"
proof -
  have h: "\<not> fst (shapeDistance2 (stub_fcl GJK_Failed EPA_Failed) stub_gjk_mem (0, 0, 0) (0, 0, 0) (3, 0, 0) (0, 0, 0))"
    by (simp add: shapeDistance2_eq run_GJK_stub)
  from shapeDistance2_false [OF h] h show ?thesis by simp
qed

text \<open>
  C1, as the code has it. \<^verbatim>\<open>shapeIntersect2\<close> returns true exactly when GJK terminates
  \<^verbatim>\<open>Inside\<close> and EPA terminates with a status other than \<^verbatim>\<open>Failed\<close>; so it returns false
  whenever GJK terminates \<^verbatim>\<open>Valid\<close> or \<^verbatim>\<open>Failed\<close> and whenever EPA terminates \<^verbatim>\<open>Failed\<close>.
\<close>

theorem shapeIntersect2_true_iff:
  "fst (shapeIntersect2 E gmem emem vmem fmem s1 tf1 s2 tf2 cp pd np) =
     (snd (run_GJK E gmem s1 tf1 s2 tf2) = GJK_Inside
      \<and> snd (run_EPA E gmem emem vmem fmem s1 tf1 s2 tf2) \<noteq> EPA_Failed)"
  by (simp add: shapeIntersect2_eq Let_def)

text \<open>
  C1, as it is stated, fails: the only EPA status that the query tests for is \<^verbatim>\<open>Failed\<close>.
  When GJK ends \<^verbatim>\<open>Inside\<close> and EPA ends \<^verbatim>\<open>InvalidHull\<close>, a rejected initial hull,
  \<^verbatim>\<open>shapeIntersect2\<close> returns true.
\<close>

theorem shapeIntersect2_invalid_hull:
  "snd (run_GJK (stub_fcl GJK_Inside EPA_InvalidHull) stub_gjk_mem (0, 0, 0) (0, 0, 0) (3, 0, 0) (0, 0, 0))
     = GJK_Inside
   \<and> snd (run_EPA (stub_fcl GJK_Inside EPA_InvalidHull) stub_gjk_mem stub_epa_mem stub_vmem stub_fmem
       (0, 0, 0) (0, 0, 0) (3, 0, 0) (0, 0, 0)) = EPA_InvalidHull
   \<and> fst (shapeIntersect2 (stub_fcl GJK_Inside EPA_InvalidHull) stub_gjk_mem stub_epa_mem stub_vmem stub_fmem
       (0, 0, 0) (0, 0, 0) (3, 0, 0) (0, 0, 0) None None None)"
  by (simp add: shapeIntersect2_eq run_GJK_stub run_EPA_stub Let_def)

text \<open>
  C4. When \<^verbatim>\<open>shapeIntersect2\<close> reports an intersection, each output that the caller asked
  for has been written: the penetration depth is \<^verbatim>\<open>-epa.depth\<close>, the normal is
  \<^verbatim>\<open>-epa.normal\<close>, and the contact point is \<^verbatim>\<open>tf1\<close> applied to
  \<^verbatim>\<open>w0 - epa.normal * (epa.depth * 0.5)\<close>, where \<open>w0\<close> is the sum over the vertices of EPA's
  result simplex of \<^verbatim>\<open>support(d_i, 0) * p_i\<close>. An output whose pointer is \<^verbatim>\<open>NULL\<close> is skipped.
\<close>

theorem shapeIntersect2_outputs:
  assumes "fst (shapeIntersect2 E gmem emem vmem fmem s1 tf1 s2 tf2 cp pd np)"
  shows "(let epa = fst (fst (run_EPA E gmem emem vmem fmem s1 tf1 s2 tf2));
              sx = result epa;
              w0 = weighted_support E (MinkowskiDiff_of E s1 tf1 s2 tf2) sx (\<lambda>i. sv_d (sx_c sx i)) 0
          in snd (shapeIntersect2 E gmem emem vmem fmem s1 tf1 s2 tf2 cp pd np) =
               (map_option (\<lambda>old. transform E tf1 (vminus E w0 (vtimes E (normal epa) (depth epa * 0.5)))) cp,
                map_option (\<lambda>old. - depth epa) pd,
                map_option (\<lambda>old. vneg E (normal epa)) np))"
  using assms by (simp add: shapeIntersect2_eq Let_def store_map_option split: if_splits)

theorem shapeIntersect2_outputs_witness:
  "fst (shapeIntersect2 (stub_fcl GJK_Inside EPA_AccuracyReached) stub_gjk_mem stub_epa_mem stub_vmem stub_fmem
      (5, 0, 0) (1, 1, 1) (3, 0, 0) (0, 0, 0) (Some (8, 8, 8)) (Some 8) (Some (8, 8, 8)))
   \<and> snd (shapeIntersect2 (stub_fcl GJK_Inside EPA_AccuracyReached) stub_gjk_mem stub_epa_mem stub_vmem stub_fmem
      (5, 0, 0) (1, 1, 1) (3, 0, 0) (0, 0, 0) (Some (8, 8, 8)) (Some 8) (Some (8, 8, 8)))
     = (Some (5, 1, 1), Some (- 2), Some (- 1, 0, 0))"
proof -
  have h: "fst (shapeIntersect2 (stub_fcl GJK_Inside EPA_AccuracyReached) stub_gjk_mem stub_epa_mem stub_vmem stub_fmem
      (5, 0, 0) (1, 1, 1) (3, 0, 0) (0, 0, 0) (Some (8, 8, 8)) (Some 8) (Some (8, 8, 8)))"
    by (simp add: shapeIntersect2_eq run_GJK_stub run_EPA_stub Let_def)
  from shapeIntersect2_outputs [OF h] h show ?thesis
    by (simp add: Let_def EPA_stub weighted_support_stub stub_fcl_ops)
qed

section \<open>Budgets and arenas: properties\<close>

lemma length_set_l [simp]: "length (set_l fs a k v) = length fs"
  by (simp add: set_l_def)

lemma nth_set_l_other: "x \<noteq> a \<Longrightarrow> set_l fs a k v ! x = fs ! x"
  by (simp add: set_l_def)

lemma f_l_set_l_same: "a < length fs \<Longrightarrow> f_l (set_l fs a k v ! a) = (f_l (fs ! a))(k := v)"
  by (simp add: set_l_def)

lemma f_l_set_l:
  "f_l (set_l fs a k v ! x) j = (if x = a \<and> a < length fs \<and> j = k then v else f_l (fs ! x) j)"
  by (cases "a < length fs") (auto simp: set_l_def nth_list_update list_update_beyond)

lemma set_l_undo:
  "a < length fs \<Longrightarrow> f_l (fs ! a) k = v \<Longrightarrow> set_l (set_l fs a k u) a k v = fs"
  by (simp add: set_l_def fun_upd_idem list_update_same_conv)

lemma append_l_unfold:
  "append_l (lst, fs) f =
     (\<lparr>root_l = Some f, count = count lst + 1\<rparr>,
      case root_l lst of
        Some r \<Rightarrow> set_l (set_l (set_l fs f 0 None) f 1 (root_l lst)) r 0 (Some f)
      | None \<Rightarrow> set_l (set_l fs f 0 None) f 1 (root_l lst))"
  by (simp add: append_l_def Let_def split: option.split)

lemma length_append_l [simp]: "length (snd (append_l (lst, fs) f)) = length fs"
  by (simp add: append_l_unfold split: option.split)

lemma count_append_l: "count (fst (append_l (lst, fs) f)) = count lst + 1"
  by (simp add: append_l_unfold)

lemma length_remove_l: "length (snd (remove_l (lst, fs) f)) = length fs"
  by (simp add: remove_l_def Let_def split: option.split)

lemma length_bind: "length (bind fs fa ea fb eb) = length fs"
  by (simp add: bind_def set_e_def set_f_def Let_def)

declare initialize_loop.simps [simp del]

lemma initialize_loop_length: "length (snd (initialize_loop i (lst, fs))) = length fs"
proof (induction i "(lst, fs)" arbitrary: lst fs rule: initialize_loop.induct)
  case (1 i)
  let ?s = "append_l (lst, fs) (EPA_MAX_FACES - i - 1)"
  show ?case
  proof (cases "i < EPA_MAX_FACES")
    case True
    have "length (snd (initialize_loop (i + 1) (fst ?s, snd ?s))) = length (snd ?s)"
      using True by (intro "1.hyps") simp_all
    then have "length (snd (initialize_loop (i + 1) ?s)) = length fs"
      by (simp only: prod.collapse length_append_l)
    with True show ?thesis
      by (subst initialize_loop.simps) (simp only: if_True)
  next
    case False
    then show ?thesis by (subst initialize_loop.simps) simp
  qed
qed

lemma initialize_loop_count:
  "count (fst (initialize_loop i (lst, fs))) = count lst + of_nat (EPA_MAX_FACES - i)"
proof (induction i "(lst, fs)" arbitrary: lst fs rule: initialize_loop.induct)
  case (1 i)
  let ?s = "append_l (lst, fs) (EPA_MAX_FACES - i - 1)"
  show ?case
  proof (cases "i < EPA_MAX_FACES")
    case True
    have "count (fst (initialize_loop (i + 1) (fst ?s, snd ?s))) =
        count (fst ?s) + of_nat (EPA_MAX_FACES - (i + 1))"
      using True by (intro "1.hyps") simp_all
    then have step: "count (fst (initialize_loop (i + 1) ?s)) =
        count lst + 1 + of_nat (EPA_MAX_FACES - (i + 1))"
      by (simp only: prod.collapse count_append_l)
    from True have "EPA_MAX_FACES - i = Suc (EPA_MAX_FACES - (i + 1))" by simp
    then have "(of_nat (EPA_MAX_FACES - i) :: size_t) = 1 + of_nat (EPA_MAX_FACES - (i + 1))"
      by (simp only: of_nat_Suc)
    with step have "count (fst (initialize_loop (i + 1) ?s)) = count lst + of_nat (EPA_MAX_FACES - i)"
      by (simp only: add.assoc)
    with True show ?thesis
      by (subst initialize_loop.simps) (simp only: if_True)
  next
    case False
    then show ?thesis by (subst initialize_loop.simps) simp
  qed
qed

lemma EPA_initialize_fields:
  "epa_status (EPA_initialize E e) = EPA_Failed \<and> normal (EPA_initialize E e) = Vec3f E 0 0 0
   \<and> depth (EPA_initialize E e) = 0 \<and> nextsv (EPA_initialize E e) = 0
   \<and> epa_hull (EPA_initialize E e) = epa_hull e \<and> sv_store (EPA_initialize E e) = sv_store e
   \<and> result (EPA_initialize E e) = result e
   \<and> epa_stock (EPA_initialize E e) = fst (initialize_loop 0 (epa_stock e, fc_store e))
   \<and> fc_store (EPA_initialize E e) = snd (initialize_loop 0 (epa_stock e, fc_store e))"
  by (simp add: EPA_initialize_def Let_def split_beta)

text \<open>
  C5. The budgets are those of the specification: 128 iterations and epsilon \<open>1e-6\<close> for
  GJK, 255 iterations and epsilon \<open>1e-6\<close> for EPA, 128 faces and 64 vertices. A constructed
  EPA engine holds arenas of exactly these lengths, and no operation of the header
  (\<^verbatim>\<open>initialize\<close>, \<^verbatim>\<open>append\<close>, \<^verbatim>\<open>remove\<close>, \<^verbatim>\<open>bind\<close>) changes the length of an arena.
\<close>

theorem budgets:
  "GJK_MAX_ITERATIONS = 128 \<and> GJK_EPS = 1 / 10 ^ 6
   \<and> EPA_MAX_ITERATIONS = 255 \<and> EPA_EPS = 1 / 10 ^ 6
   \<and> EPA_MAX_FACES = 128 \<and> EPA_MAX_VERTICES = 64
   \<and> length (fc_store (EPA_new E mem vmem fmem)) = 128
   \<and> length (sv_store (EPA_new E mem vmem fmem)) = 64
   \<and> length (fc_store (EPA_initialize E e)) = length (fc_store e)
   \<and> length (sv_store (EPA_initialize E e)) = length (sv_store e)
   \<and> length (snd (append_l (lst, fs) f)) = length fs
   \<and> length (snd (remove_l (lst, fs) f)) = length fs
   \<and> length (bind fs fa ea fb eb) = length fs"
  by (simp add: GJK_MAX_ITERATIONS_def GJK_EPS_def EPA_MAX_ITERATIONS_def EPA_EPS_def
      EPA_MAX_FACES_def EPA_MAX_VERTICES_def EPA_new_def EPA_initialize_fields
      initialize_loop_length length_remove_l length_bind)

section \<open>Faces and their lists: properties\<close>

text \<open>
  C6. For faces \<open>fa\<close> and \<open>fb\<close> of the store, equal or not, and edge indices \<open>ea\<close> and \<open>eb\<close>
  below 3, after \<^verbatim>\<open>bind(fa, ea, fb, eb)\<close> the neighbour of \<open>fa\<close> at edge \<open>ea\<close> is \<open>fb\<close> with
  recorded edge \<open>eb\<close>, and the neighbour of \<open>fb\<close> at edge \<open>eb\<close> is \<open>fa\<close> with recorded edge
  \<open>ea\<close>.
\<close>

theorem bind_symmetric:
  assumes "fa < length fs" and "fb < length fs" and "ea < 3" and "eb < 3"
  shows "f_f (bind fs fa ea fb eb ! fa) ea = Some fb \<and> f_e (bind fs fa ea fb eb ! fa) ea = eb
    \<and> f_f (bind fs fa ea fb eb ! fb) eb = Some fa \<and> f_e (bind fs fa ea fb eb ! fb) eb = ea"
  using assms by (simp add: bind_def set_e_def set_f_def Let_def nth_list_update)

theorem bind_symmetric_witness:
  "(0::nat) < length [stub_face, stub_face] \<and> (1::nat) < length [stub_face, stub_face]
   \<and> f_f (bind [stub_face, stub_face] 0 1 1 2 ! 0) 1 = Some 1
   \<and> f_e (bind [stub_face, stub_face] 0 1 1 2 ! 0) 1 = 2
   \<and> f_f (bind [stub_face, stub_face] 0 1 1 2 ! 1) 2 = Some 0
   \<and> f_e (bind [stub_face, stub_face] 0 1 1 2 ! 1) 2 = 1"
  using bind_symmetric [of 0 "[stub_face, stub_face]" 1 1 2] by simp

lemma dll_cong:
  "length fs' = length fs \<Longrightarrow> (\<forall>x\<in>set xs. fs' ! x = fs ! x) \<Longrightarrow> dll fs' p c xs = dll fs p c xs"
  by (induction xs arbitrary: p c) auto

text \<open>Appending a face that is not in the list puts it in front.\<close>

lemma append_l_is_list:
  assumes "is_list fs lst xs" and "f \<notin> set xs" and "f < length fs"
  shows "is_list (snd (append_l (lst, fs) f)) (fst (append_l (lst, fs) f)) (f # xs)"
proof (cases xs)
  case Nil
  with assms show ?thesis
    by (simp add: is_list_def append_l_unfold f_l_set_l_same)
next
  case (Cons r ys)
  with assms have r: "root_l lst = Some r" "r < length fs" "r \<noteq> f" "f_l (fs ! r) 0 = None"
    and tl: "dll fs (Some r) (f_l (fs ! r) 1) ys" and d: "r \<notin> set ys" "f \<notin> set ys" "distinct ys"
    and c: "count lst = of_nat (length xs)"
    by (auto simp: is_list_def)
  let ?fs = "set_l (set_l (set_l fs f 0 None) f 1 (Some r)) r 0 (Some f)"
  have "x \<noteq> r \<and> x \<noteq> f" if "x \<in> set ys" for x
    using d that by auto
  then have same: "\<forall>x\<in>set ys. ?fs ! x = fs ! x"
    by (simp add: nth_set_l_other)
  have "dll ?fs (Some r) (f_l (fs ! r) 1) ys"
    using tl dll_cong [of ?fs fs ys] same by simp
  moreover have "f_l (?fs ! r) = (f_l (fs ! r))(0 := Some f)"
    using r by (simp add: f_l_set_l_same nth_set_l_other)
  moreover have "f_l (?fs ! f) = ((f_l (fs ! f))(0 := None))(1 := Some r)"
    using r assms(3) by (simp add: f_l_set_l_same nth_set_l_other)
  ultimately show ?thesis
    using r d c Cons assms by (simp add: is_list_def append_l_unfold)
qed

text \<open>Removing a face that is in the list takes it out and keeps the others in order.\<close>

lemma dll_next:
  "dll fs prev cur xs \<Longrightarrow> distinct xs \<Longrightarrow> f \<in> set xs \<Longrightarrow> f_l (fs ! f) 1 = Some nx
    \<Longrightarrow> nx \<in> set xs \<and> nx \<noteq> f"
proof (induction xs arbitrary: prev cur)
  case Nil
  then show ?case by simp
next
  case (Cons x xs)
  show ?case
  proof (cases "x = f")
    case True
    with Cons.prems show ?thesis by (cases xs) auto
  next
    case False
    with Cons.prems Cons.IH [of "Some x" "f_l (fs ! x) 1"] show ?thesis by auto
  qed
qed

lemma dll_prev:
  "dll fs prev cur xs \<Longrightarrow> distinct xs \<Longrightarrow> f \<in> set xs
    \<Longrightarrow> (cur = Some f \<and> f_l (fs ! f) 0 = prev)
      \<or> (cur \<noteq> Some f \<and> (\<exists>p\<in>set xs. p \<noteq> f \<and> f_l (fs ! f) 0 = Some p \<and> f_l (fs ! p) 1 = Some f))"
proof (induction xs arbitrary: prev cur)
  case Nil
  then show ?case by simp
next
  case (Cons x xs)
  show ?case
  proof (cases "x = f")
    case True
    with Cons.prems show ?thesis by auto
  next
    case False
    with Cons.prems Cons.IH [of "Some x" "f_l (fs ! x) 1"] show ?thesis by auto
  qed
qed

lemma length_unlink [simp]: "length (unlink fs f) = length fs"
  by (simp add: unlink_def Let_def split: option.split)

lemma unlink_other:
  "Some x \<noteq> f_l (fs ! f) 0 \<Longrightarrow> Some x \<noteq> f_l (fs ! f) 1 \<Longrightarrow> unlink fs f ! x = fs ! x"
  by (auto simp: unlink_def Let_def nth_set_l_other split: option.split)

lemma unlink_l0:
  "x < length fs \<Longrightarrow>
     f_l (unlink fs f ! x) 0 = (if f_l (fs ! f) 1 = Some x then f_l (fs ! f) 0 else f_l (fs ! x) 0)"
  by (auto simp: unlink_def Let_def f_l_set_l split: option.split)

lemma unlink_l1:
  "x < length fs \<Longrightarrow>
     f_l (unlink fs f ! x) (Suc 0) =
       (if f_l (fs ! f) 0 = Some x then f_l (fs ! f) (Suc 0) else f_l (fs ! x) (Suc 0))"
  by (auto simp: unlink_def Let_def f_l_set_l split: option.split)

lemma dll_unlink:
  assumes "dll fs prev cur xs" and "distinct xs" and "f \<in> set xs"
    and "\<forall>p. prev = Some p \<longrightarrow> p \<notin> set xs"
  shows "dll (unlink fs f) prev (if cur = Some f then f_l (fs ! f) 1 else cur) (remove1 f xs)"
  using assms
proof (induction xs arbitrary: prev cur)
  case Nil
  then show ?case by simp
next
  case (Cons x xs)
  from Cons.prems have x: "cur = Some x" "x < length fs" "f_l (fs ! x) 0 = prev"
    and tl: "dll fs (Some x) (f_l (fs ! x) 1) xs" and d: "x \<notin> set xs" "distinct xs"
    by auto
  show ?case
  proof (cases "x = f")
    case True
    show ?thesis
    proof (cases xs)
      case Nil
      with True x tl show ?thesis by simp
    next
      case (Cons y ys)
      with tl True have y: "f_l (fs ! f) 1 = Some y" "y < length fs" "f_l (fs ! y) 0 = Some f"
        and tl': "dll fs (Some y) (f_l (fs ! y) 1) ys"
        by auto
      have "Some z \<noteq> prev" if "z \<in> set (x # xs)" for z
        using Cons.prems(4) that by auto
      with Cons d True x have ne: "y \<noteq> f" "y \<notin> set ys" "f \<notin> set ys"
        "Some y \<noteq> f_l (fs ! f) 0" "\<forall>z\<in>set ys. Some z \<noteq> f_l (fs ! f) 0"
        by auto
      have "\<forall>z\<in>set ys. unlink fs f ! z = fs ! z"
        using ne y by (auto intro!: unlink_other)
      then have "dll (unlink fs f) (Some y) (f_l (fs ! y) 1) ys"
        using tl' dll_cong [of "unlink fs f" fs ys] by simp
      moreover have "f_l (unlink fs f ! y) 0 = prev"
        using y ne x True by (simp add: unlink_l0)
      moreover have "f_l (unlink fs f ! y) 1 = f_l (fs ! y) 1"
        using y ne by (simp add: unlink_l1)
      ultimately show ?thesis
        using True x y Cons by simp
    qed
  next
    case False
    with Cons.prems have fin: "f \<in> set xs" by simp
    have IH: "dll (unlink fs f) (Some x) (if f_l (fs ! x) 1 = Some f then f_l (fs ! f) 1 else f_l (fs ! x) 1)
        (remove1 f xs)"
      using tl d fin by (intro Cons.IH) simp_all
    from dll_next [OF tl d(2) fin] d have nx: "Some x \<noteq> f_l (fs ! f) 1"
      by (cases "f_l (fs ! f) 1") auto
    have l0: "f_l (unlink fs f ! x) 0 = prev"
      using nx x by (auto simp: unlink_l0)
    have l1: "f_l (unlink fs f ! x) 1 =
        (if f_l (fs ! x) 1 = Some f then f_l (fs ! f) 1 else f_l (fs ! x) 1)"
      using dll_prev [OF tl d(2) fin] d x by (auto simp: unlink_l1)
    from False x l0 l1 IH show ?thesis by simp
  qed
qed

lemma remove_l_unlink:
  assumes "is_list fs lst xs" and "f \<in> set xs"
  shows "remove_l (lst, fs) f =
     (\<lparr>root_l = (if Some f = root_l lst then f_l (fs ! f) 1 else root_l lst), count = count lst - 1\<rparr>,
      unlink fs f)"
proof -
  from assms have d: "dll fs None (root_l lst) xs" "distinct xs"
    by (simp_all add: is_list_def)
  have nx: "f_l (fs ! f) 1 \<noteq> Some f"
    using dll_next [OF d assms(2)] by auto
  have pv: "f_l (fs ! f) 0 \<noteq> Some f"
    using dll_prev [OF d assms(2)] by auto
  show ?thesis
    using nx pv by (cases lst; cases "f_l (fs ! f) 0"; cases "f_l (fs ! f) 1")
      (auto simp: remove_l_def Let_def unlink_def f_l_set_l)
qed

lemma remove_l_is_list:
  assumes "is_list fs lst xs" and "f \<in> set xs"
  shows "is_list (snd (remove_l (lst, fs) f)) (fst (remove_l (lst, fs) f)) (remove1 f xs)"
proof -
  from assms have d: "dll fs None (root_l lst) xs" "distinct xs" "count lst = of_nat (length xs)"
    by (simp_all add: is_list_def)
  have "dll (unlink fs f) None (if root_l lst = Some f then f_l (fs ! f) 1 else root_l lst) (remove1 f xs)"
    using d assms(2) by (intro dll_unlink) simp_all
  moreover have "(of_nat (length xs) :: size_t) - 1 = of_nat (length (remove1 f xs))"
  proof -
    from assms(2) have "length xs = Suc (length (remove1 f xs))"
      by (simp add: length_remove1) (cases xs, auto)
    then show ?thesis by simp
  qed
  ultimately show ?thesis
    using d by (auto simp: remove_l_unlink [OF assms] is_list_def)
qed

text \<open>
  C10. For every list, that is every state that \<open>is_list\<close> describes (the states that
  \<^verbatim>\<open>append\<close> and \<^verbatim>\<open>remove\<close> maintain, as just shown), and every face \<open>f\<close> of the store
  that is not in it,
  \<^verbatim>\<open>remove(f)\<close> after \<^verbatim>\<open>append(f)\<close> restores the root and the count of the list and the
  record of the face that was first before, and that of every face other than \<open>f\<close>;
  the list holds the same faces as before.
\<close>

theorem append_remove_roundtrip:
  assumes "is_list fs lst xs" and "f \<notin> set xs" and "f < length fs"
  shows "fst (remove_l (append_l (lst, fs) f) f) = lst
    \<and> (\<forall>r. root_l lst = Some r \<longrightarrow> snd (remove_l (append_l (lst, fs) f) f) ! r = fs ! r)
    \<and> (\<forall>x. x \<noteq> f \<longrightarrow> snd (remove_l (append_l (lst, fs) f) f) ! x = fs ! x)
    \<and> is_list (snd (remove_l (append_l (lst, fs) f) f)) (fst (remove_l (append_l (lst, fs) f) f)) xs"
proof (cases xs)
  case Nil
  with assms have r: "root_l lst = None" by (simp add: is_list_def)
  have eq: "remove_l (append_l (lst, fs) f) f = (lst, set_l (set_l fs f 0 None) f 1 None)"
    using r assms(3) by (simp add: append_l_unfold remove_l_def Let_def f_l_set_l_same)
  show ?thesis
    using assms Nil r by (simp add: eq nth_set_l_other is_list_def)
next
  case (Cons r ys)
  with assms have r: "root_l lst = Some r" "r < length fs" "r \<noteq> f" "f_l (fs ! r) 0 = None"
    by (auto simp: is_list_def)
  let ?fs0 = "set_l (set_l fs f 0 None) f (Suc 0) (Some r)"
  have undo: "set_l (set_l ?fs0 r 0 (Some f)) r 0 None = ?fs0"
    using r by (intro set_l_undo) (simp_all add: nth_set_l_other)
  have eq: "remove_l (append_l (lst, fs) f) f = (lst, ?fs0)"
    using r assms(3) by (simp add: append_l_unfold remove_l_def Let_def f_l_set_l_same nth_set_l_other undo)
  have same: "\<forall>x. x \<noteq> f \<longrightarrow> ?fs0 ! x = fs ! x"
    by (simp add: nth_set_l_other)
  have "dll ?fs0 None (root_l lst) xs = dll fs None (root_l lst) xs"
    using assms(2) same by (intro dll_cong) auto
  then show ?thesis
    using assms r same by (simp add: eq is_list_def)
qed

theorem append_remove_roundtrip_witness:
  "is_list [stub_face, stub_face, stub_face] \<lparr>root_l = Some 1, count = 1\<rparr> [1]
   \<and> fst (remove_l (append_l (\<lparr>root_l = Some 1, count = 1\<rparr>, [stub_face, stub_face, stub_face]) 0) 0)
       = \<lparr>root_l = Some 1, count = 1\<rparr>
   \<and> snd (remove_l (append_l (\<lparr>root_l = Some 1, count = 1\<rparr>, [stub_face, stub_face, stub_face]) 0) 0) ! 1
       = stub_face"
proof -
  have h: "is_list [stub_face, stub_face, stub_face] \<lparr>root_l = Some 1, count = 1\<rparr> [1]"
    by (simp add: is_list_def stub_face_def)
  from append_remove_roundtrip [OF h, of 0] h show ?thesis by simp
qed

lemma initialize_loop_is_list:
  assumes "i \<le> EPA_MAX_FACES" and "length fs = EPA_MAX_FACES"
    and "is_list fs lst [EPA_MAX_FACES - i..<EPA_MAX_FACES]"
  shows "is_list (snd (initialize_loop i (lst, fs))) (fst (initialize_loop i (lst, fs)))
    [0..<EPA_MAX_FACES]"
  using assms
proof (induction i "(lst, fs)" arbitrary: lst fs rule: initialize_loop.induct)
  case (1 i)
  let ?f = "EPA_MAX_FACES - i - 1"
  let ?s = "append_l (lst, fs) ?f"
  show ?case
  proof (cases "i < EPA_MAX_FACES")
    case True
    have f: "?f \<notin> set [EPA_MAX_FACES - i..<EPA_MAX_FACES]" "?f < length fs"
      using True "1.prems" by auto
    have up: "?f # [EPA_MAX_FACES - i..<EPA_MAX_FACES] = [EPA_MAX_FACES - (i + 1)..<EPA_MAX_FACES]"
      using True by (simp add: upt_conv_Cons [of "EPA_MAX_FACES - Suc i"] Suc_diff_Suc)
    have "is_list (snd ?s) (fst ?s) (?f # [EPA_MAX_FACES - i..<EPA_MAX_FACES])"
      using "1.prems"(3) f by (rule append_l_is_list)
    then have l: "is_list (snd ?s) (fst ?s) [EPA_MAX_FACES - (i + 1)..<EPA_MAX_FACES]"
      by (simp only: up)
    have n: "length (snd ?s) = EPA_MAX_FACES"
      using "1.prems"(2) by (simp only: length_append_l)
    have "is_list (snd (initialize_loop (i + 1) (fst ?s, snd ?s)))
        (fst (initialize_loop (i + 1) (fst ?s, snd ?s))) [0..<EPA_MAX_FACES]"
      using True l n by (intro "1.hyps") simp_all
    then have "is_list (snd (initialize_loop (i + 1) ?s)) (fst (initialize_loop (i + 1) ?s))
        [0..<EPA_MAX_FACES]"
      by (simp only: prod.collapse)
    with True show ?thesis
      by (subst (1 2) initialize_loop.simps) (simp only: if_True)
  next
    case False
    with "1.prems" have "i = EPA_MAX_FACES" by simp
    with "1.prems" show ?thesis by (subst (1 2) initialize_loop.simps) simp
  qed
qed

text \<open>
  C9. Whatever its storage held, a freshly constructed EPA engine has its whole face
  arena in \<^verbatim>\<open>stock\<close>: \<^verbatim>\<open>stock.count\<close> is 128 and \<^verbatim>\<open>stock\<close> is the list of the faces
  \<open>0, 1, ..., 127\<close>; \<^verbatim>\<open>hull\<close> is empty, \<^verbatim>\<open>nextsv\<close> is 0, \<^verbatim>\<open>depth\<close> is 0, \<^verbatim>\<open>normal\<close> is
  \<^verbatim>\<open>Vec3f(0, 0, 0)\<close> and \<^verbatim>\<open>status\<close> is \<^verbatim>\<open>Failed\<close>. \<^verbatim>\<open>initialize\<close> itself clears no list:
  on any engine it adds 128 to \<^verbatim>\<open>stock.count\<close> and leaves \<^verbatim>\<open>hull\<close> as it was.
\<close>

theorem EPA_new_fresh:
  "count (epa_stock (EPA_new E mem vmem fmem)) = 128
   \<and> is_list (fc_store (EPA_new E mem vmem fmem)) (epa_stock (EPA_new E mem vmem fmem)) [0..<128]
   \<and> root_l (epa_hull (EPA_new E mem vmem fmem)) = None
   \<and> count (epa_hull (EPA_new E mem vmem fmem)) = 0
   \<and> nextsv (EPA_new E mem vmem fmem) = 0
   \<and> depth (EPA_new E mem vmem fmem) = 0
   \<and> normal (EPA_new E mem vmem fmem) = Vec3f E 0 0 0
   \<and> epa_status (EPA_new E mem vmem fmem) = EPA_Failed
   \<and> count (epa_stock (EPA_initialize E e)) = count (epa_stock e) + 128
   \<and> epa_hull (EPA_initialize E e) = epa_hull e"
proof -
  let ?e0 = "mem\<lparr>sv_store := map vmem [0..<EPA_MAX_VERTICES],
    fc_store := map fmem [0..<EPA_MAX_FACES],
    epa_hull := SimplexList_new, epa_stock := SimplexList_new\<rparr>"
  have n: "(of_nat EPA_MAX_FACES :: size_t) = 128" "EPA_MAX_FACES = 128"
    by (simp_all add: EPA_MAX_FACES_def)
  have "is_list (fc_store ?e0) (epa_stock ?e0) [EPA_MAX_FACES - 0..<EPA_MAX_FACES]"
    by (simp add: is_list_def SimplexList_new_def)
  then have "is_list (snd (initialize_loop 0 (epa_stock ?e0, fc_store ?e0)))
      (fst (initialize_loop 0 (epa_stock ?e0, fc_store ?e0))) [0..<EPA_MAX_FACES]"
    by (intro initialize_loop_is_list) simp_all
  then have l: "is_list (fc_store (EPA_new E mem vmem fmem)) (epa_stock (EPA_new E mem vmem fmem)) [0..<128]"
    by (simp only: EPA_new_def EPA_initialize_fields n)
  have c: "count (epa_stock (EPA_initialize E e')) = count (epa_stock e') + 128" for e' :: "'a EPA"
    using initialize_loop_count [of 0 "epa_stock e'" "fc_store e'"]
    by (simp add: EPA_initialize_fields n)
  have c0: "count (epa_stock (EPA_new E mem vmem fmem)) = 128"
    by (simp add: EPA_new_def c) (simp add: SimplexList_new_def)
  show ?thesis
    using l c c0 by (simp add: EPA_initialize_fields) (simp add: EPA_new_def EPA_initialize_fields SimplexList_new_def)
qed

section \<open>Two runs of a query\<close>














end
